theory Spec2Isabelle
  imports Main "HOL-Library.AList"
begin

section \<open>Values of the JavaScript runtime\<close>

text \<open>
  The plugin (\<^verbatim>\<open>packages/agentrc/src/index.js\<close>) works on values produced by
  \<^verbatim>\<open>JSON.parse\<close>. A parsed value is one of the six JSON kinds. Numbers are kept to
  the integers, strings are lists of characters, and an object is the list of its own
  properties, a key looked up from the front. A property that is missing reads as
  \<^verbatim>\<open>undefined\<close>, which is \<open>None\<close> here; \<^verbatim>\<open>null\<close> is \<open>JNull\<close>.

  The order of the list is the order in which the properties were defined. The runtime
  enumerates keys that are array indices before the others; the two orders differ only
  in the text that \<^verbatim>\<open>JSON.stringify\<close> prints, and that text is left to a parameter
  throughout.
\<close>

datatype json =
    JNull
  | JBool bool
  | JNum int
  | JStr string
  | JArr "json list"
  | JObj "(string \<times> json) list"

text \<open>The errors the plugin throws, one constructor per \<^verbatim>\<open>throw new Error(...)\<close> of the
  source, and \<open>TypeError\<close> for the errors the runtime itself raises (calling a method
  that a value does not have, assigning a property to a primitive).
  \<^item> \<open>InvalidConfig\<close>: \<^verbatim>\<open>Invalid .agentrc: must be an object\<close>
  \<^item> \<open>RuleTextRequired\<close>: \<^verbatim>\<open>Rule text required\<close>
  \<^item> \<open>NoConfigFound\<close>: \<^verbatim>\<open>No .agentrc config found\<close>
  \<^item> \<open>RuleIdRequired\<close>: \<^verbatim>\<open>Rule ID required\<close>
  \<^item> \<open>NoRulesFound\<close>: \<^verbatim>\<open>No rules found\<close>
  \<^item> \<open>SecurityDenied\<close>: \<^verbatim>\<open>.env file access blocked by .agentrc security rules\<close>\<close>

datatype error =
    InvalidConfig
  | RuleTextRequired
  | NoConfigFound
  | RuleIdRequired
  | NoRulesFound
  | SecurityDenied
  | TypeError

text \<open>\<^verbatim>\<open>typeof v\<close> on a parsed value.\<close>

fun typeof :: "json \<Rightarrow> string" where
  "typeof JNull = ''object''"
| "typeof (JBool b) = ''boolean''"
| "typeof (JNum n) = ''number''"
| "typeof (JStr s) = ''string''"
| "typeof (JArr xs) = ''object''"
| "typeof (JObj ps) = ''object''"

text \<open>Truthiness, as \<^verbatim>\<open>!v\<close>, \<^verbatim>\<open>v && ...\<close> and \<^verbatim>\<open>v || ...\<close> test it.\<close>

fun truthy :: "json \<Rightarrow> bool" where
  "truthy JNull = False"
| "truthy (JBool b) = b"
| "truthy (JNum n) = (n \<noteq> 0)"
| "truthy (JStr s) = (s \<noteq> [])"
| "truthy (JArr xs) = True"
| "truthy (JObj ps) = True"

text \<open>Reading a named own property, \<^verbatim>\<open>v.k\<close>. The source reads only the keys
  \<^verbatim>\<open>rules\<close>, \<^verbatim>\<open>commands\<close>, \<^verbatim>\<open>project\<close>, \<^verbatim>\<open>name\<close>, \<^verbatim>\<open>type\<close>,
  \<^verbatim>\<open>security\<close>, \<^verbatim>\<open>sensitiveFiles\<close>, \<^verbatim>\<open>restrictedPaths\<close>, \<^verbatim>\<open>test\<close>,
  \<^verbatim>\<open>build\<close>, \<^verbatim>\<open>lint\<close> and \<^verbatim>\<open>dev\<close> this way; no array, string, number or
  boolean has a property of one of these names, so on them the read gives
  \<^verbatim>\<open>undefined\<close>.\<close>

fun get :: "json \<Rightarrow> string \<Rightarrow> json option" where
  "get (JObj ps) k = map_of ps k"
| "get v k = None"

text \<open>Optional chaining \<^verbatim>\<open>v?.k\<close>: \<^verbatim>\<open>undefined\<close> when \<open>v\<close> is
  \<^verbatim>\<open>undefined\<close> or \<^verbatim>\<open>null\<close>.\<close>

fun opt_get :: "json option \<Rightarrow> string \<Rightarrow> json option" where
  "opt_get None k = None"
| "opt_get (Some v) k = get v k"

text \<open>Truthiness of a possibly undefined value.\<close>

fun truthy_opt :: "json option \<Rightarrow> bool" where
  "truthy_opt None = False"
| "truthy_opt (Some v) = truthy v"

section \<open>Strings\<close>

text \<open>\<^verbatim>\<open>s.startsWith(p)\<close>, \<^verbatim>\<open>s.endsWith(p)\<close> and \<^verbatim>\<open>s.includes(p)\<close>.\<close>

definition startsWith :: "string \<Rightarrow> string \<Rightarrow> bool" where
  "startsWith s p = (take (length p) s = p)"

definition endsWith :: "string \<Rightarrow> string \<Rightarrow> bool" where
  "endsWith s p = (length p \<le> length s \<and> drop (length s - length p) s = p)"

fun str_includes :: "string \<Rightarrow> string \<Rightarrow> bool" where
  "str_includes [] p = (p = [])"
| "str_includes (c # cs) p = (startsWith (c # cs) p \<or> str_includes cs p)"

section \<open>Config Locator\<close>

text \<open>The file system is a map from paths to file contents; \<^verbatim>\<open>fs.readFile\<close> rejects
  on a path that is not in it. \<^verbatim>\<open>JSON.parse\<close> is a function of the runtime, taken as
  the parameter \<open>JSON_parse\<close>: \<open>None\<close> is a \<^verbatim>\<open>SyntaxError\<close>.\<close>

type_synonym fs = "string \<Rightarrow> string option"

definition validateAgentrcConfig :: "json \<Rightarrow> error + json" where
  "validateAgentrcConfig config =
     (if typeof config \<noteq> ''object'' \<or> config = JNull then Inl InvalidConfig
      else Inr config)"

text \<open>The application paths the host hands to the plugin (\<^verbatim>\<open>app.path.root\<close>,
  \<^verbatim>\<open>app.path.config\<close>) and the environment variable \<^verbatim>\<open>process.env.HOME\<close>, taken
  to be set. \<^verbatim>\<open>path.join\<close> is the runtime's, taken as the parameter \<open>path_join\<close>.\<close>

record app =
  path_root :: string
  path_config :: string
  env_HOME :: string

definition locations :: "(string list \<Rightarrow> string) \<Rightarrow> app \<Rightarrow> string list" where
  "locations path_join a =
     [path_join [path_root a, ''.agentrc''],
      path_join [path_config a, ''.agentrc''],
      path_join [env_HOME a, ''.config'', ''kuuzuki'', ''.agentrc'']]"

text \<open>The \<^verbatim>\<open>for (const configPath of locations)\<close> loop of \<^verbatim>\<open>loadAgentrcConfig\<close>.
  Reading, parsing and validating all sit inside one \<^verbatim>\<open>try\<close> whose \<^verbatim>\<open>catch\<close> is
  \<^verbatim>\<open>continue\<close>, so each of the three failures moves on to the next location. The
  result is the pair \<^verbatim>\<open>{ config, path }\<close>, with \<^verbatim>\<open>null\<close> for both when the loop
  runs out.\<close>

fun loadFrom :: "(string \<Rightarrow> json option) \<Rightarrow> fs \<Rightarrow> string list \<Rightarrow> json \<times> string option" where
  "loadFrom JSON_parse files [] = (JNull, None)"
| "loadFrom JSON_parse files (configPath # rest) =
     (case files configPath of
        None \<Rightarrow> loadFrom JSON_parse files rest
      | Some content \<Rightarrow>
          (case JSON_parse content of
             None \<Rightarrow> loadFrom JSON_parse files rest
           | Some parsed \<Rightarrow>
               (case validateAgentrcConfig parsed of
                  Inl e \<Rightarrow> loadFrom JSON_parse files rest
                | Inr config \<Rightarrow> (config, Some configPath))))"

text \<open>\<^verbatim>\<open>loadAgentrcConfig\<close> has no \<^verbatim>\<open>throw\<close> that leaves it: it always returns.\<close>

definition loadAgentrcConfig ::
  "(string \<Rightarrow> json option) \<Rightarrow> (string list \<Rightarrow> string) \<Rightarrow> fs \<Rightarrow> app
     \<Rightarrow> error + (json \<times> string option)" where
  "loadAgentrcConfig JSON_parse path_join files a =
     Inr (loadFrom JSON_parse files (locations path_join a))"

section \<open>Legacy Config Extractor\<close>

text \<open>\<^verbatim>\<open>s.split(sep)\<close> with a separator of one character: the pieces between the
  separators, the empty string giving one empty piece. The second branch of the
  \<open>case\<close> is never taken, a split has at least one piece.\<close>

fun splitOn :: "char \<Rightarrow> string \<Rightarrow> string list" where
  "splitOn sep [] = [[]]"
| "splitOn sep (c # cs) =
     (if c = sep then [] # splitOn sep cs
      else (case splitOn sep cs of
              w # ws \<Rightarrow> (c # w) # ws
            | [] \<Rightarrow> [[c]]))"

text \<open>\<^verbatim>\<open>line.match(/`([^`]+)`/)\<close>: the first capture group of the leftmost match, or
  \<open>None\<close> when the line has no match. A match starts at a backtick that is followed by
  at least one character other than a backtick and then by a backtick; the group is the
  whole run between the two, as the run cannot be cut short before a character that is not
  a backtick.\<close>

definition tick :: char where
  "tick = CHR 0x60"

fun backtickMatch :: "string \<Rightarrow> string option" where
  "backtickMatch [] = None"
| "backtickMatch (c # cs) =
     (if c = tick \<and> takeWhile (\<lambda>x. x \<noteq> tick) cs \<noteq> [] \<and> dropWhile (\<lambda>x. x \<noteq> tick) cs \<noteq> []
      then Some (takeWhile (\<lambda>x. x \<noteq> tick) cs)
      else backtickMatch cs)"

text \<open>The object \<^verbatim>\<open>legacyConfig\<close> while the files are scanned: the strings pushed to
  \<^verbatim>\<open>rules\<close> and the properties assigned to \<^verbatim>\<open>commands\<close>; \<^verbatim>\<open>project\<close> stays
  empty.\<close>

record legacy =
  legacy_rules :: "string list"
  legacy_commands :: "(string \<times> string) list"

text \<open>\<^verbatim>\<open>if (cmd.includes(word)) legacyConfig.commands[word] = cmd\<close>\<close>

definition assignCommand :: "string \<Rightarrow> string \<Rightarrow> (string \<times> string) list \<Rightarrow> (string \<times> string) list" where
  "assignCommand word cmd commands =
     (if str_includes cmd word then AList.update word cmd commands else commands)"

text \<open>The command a line yields: on a line that contains a backtick followed by
  \<^verbatim>\<open>npm \<close>, \<^verbatim>\<open>bun \<close> or \<^verbatim>\<open>yarn \<close>, the first capture of the regular
  expression, if it matches.\<close>

definition extractCommand :: "string \<Rightarrow> string option" where
  "extractCommand line =
     (if str_includes line (tick # ''npm '') \<or> str_includes line (tick # ''bun '')
         \<or> str_includes line (tick # ''yarn '')
      then backtickMatch line else None)"

text \<open>The three assignments to \<^verbatim>\<open>legacyConfig.commands\<close>, in the order of the
  source.\<close>

definition assignCommands :: "string \<Rightarrow> (string \<times> string) list \<Rightarrow> (string \<times> string) list" where
  "assignCommands cmd commands =
     assignCommand ''lint'' cmd (assignCommand ''build'' cmd (assignCommand ''test'' cmd commands))"

text \<open>The body of \<^verbatim>\<open>lines.forEach(line => ...)\<close>.\<close>

definition scanLine :: "legacy \<Rightarrow> string \<Rightarrow> legacy" where
  "scanLine lc line =
     (let lc1 = (if startsWith line ''- '' \<and> str_includes line '':''
                 then lc\<lparr>legacy_rules := legacy_rules lc @ [drop 2 line]\<rparr> else lc)
      in case extractCommand line of
           None \<Rightarrow> lc1
         | Some cmd \<Rightarrow> lc1\<lparr>legacy_commands := assignCommands cmd (legacy_commands lc1)\<rparr>)"

definition legacyFiles :: "(string list \<Rightarrow> string) \<Rightarrow> app \<Rightarrow> (string \<times> string) list" where
  "legacyFiles path_join a =
     [(path_join [path_root a, ''AGENTS.md''], ''agents''),
      (path_join [path_root a, ''CLAUDE.md''], ''claude''),
      (path_join [path_root a, ''.cursorrules''], ''cursor''),
      (path_join [path_root a, ''.github'', ''copilot-instructions.md''], ''copilot'')]"

text \<open>The loop over \<^verbatim>\<open>legacyFiles\<close>: a file that cannot be read is skipped, and only
  the types \<^verbatim>\<open>agents\<close> and \<^verbatim>\<open>claude\<close> are scanned.\<close>

fun scanFiles :: "fs \<Rightarrow> (string \<times> string) list \<Rightarrow> legacy \<Rightarrow> legacy" where
  "scanFiles files [] lc = lc"
| "scanFiles files ((filePath, type) # rest) lc =
     (case files filePath of
        None \<Rightarrow> scanFiles files rest lc
      | Some content \<Rightarrow>
          (if type = ''agents'' \<or> type = ''claude''
           then scanFiles files rest (foldl scanLine lc (splitOn CHR 0x0A content))
           else scanFiles files rest lc))"

text \<open>The value \<^verbatim>\<open>loadLegacyConfigs\<close> returns: the object
  \<^verbatim>\<open>{ rules, commands, project }\<close>, or \<^verbatim>\<open>null\<close> when no rule and no command was
  found.\<close>

definition legacyObject :: "legacy \<Rightarrow> json" where
  "legacyObject lc =
     JObj [(''rules'', JArr (map JStr (legacy_rules lc))),
           (''commands'', JObj (map (\<lambda>(k, v). (k, JStr v)) (legacy_commands lc))),
           (''project'', JObj [])]"

definition loadLegacyConfigs :: "(string list \<Rightarrow> string) \<Rightarrow> fs \<Rightarrow> app \<Rightarrow> json" where
  "loadLegacyConfigs path_join files a =
     (let lc = scanFiles files (legacyFiles path_join a) \<lparr>legacy_rules = [], legacy_commands = []\<rparr>
      in if length (legacy_rules lc) > 0 \<or> length (legacy_commands lc) > 0
         then legacyObject lc else JNull)"

section \<open>Config Merger\<close>

text \<open>The decimal numeral of an array index, the name of the property that holds the
  element.\<close>

fun index_key :: "nat \<Rightarrow> string" where
  "index_key n =
     (if n < 10 then [char_of (48 + n)]
      else index_key (n div 10) @ [char_of (48 + n mod 10)])"

text \<open>The own enumerable properties that an object spread \<^verbatim>\<open>{ ...v }\<close> copies: the
  properties of an object, the elements of an array and the characters of a string under
  their indices, nothing for the other values.\<close>

fun ownProps :: "json \<Rightarrow> (string \<times> json) list" where
  "ownProps (JObj ps) = ps"
| "ownProps (JArr xs) = zip (map index_key [0..<length xs]) xs"
| "ownProps (JStr s) = zip (map index_key [0..<length s]) (map (\<lambda>c. JStr [c]) s)"
| "ownProps v = []"

text \<open>\<^verbatim>\<open>{ ...acc, ...v }\<close>: each property of \<open>v\<close> is defined on the object built so
  far, replacing the value of a key that is there and coming last otherwise.\<close>

definition spread :: "(string \<times> json) list \<Rightarrow> json \<Rightarrow> (string \<times> json) list" where
  "spread acc v = foldl (\<lambda>ps (k, x). AList.update k x ps) acc (ownProps v)"

text \<open>\<^verbatim>\<open>v || {}\<close> and \<^verbatim>\<open>Array.isArray(v) ? v : []\<close> on a property that may be
  missing.\<close>

fun orEmptyObject :: "json option \<Rightarrow> json" where
  "orEmptyObject None = JObj []"
| "orEmptyObject (Some v) = (if truthy v then v else JObj [])"

fun arrayOrEmpty :: "json option \<Rightarrow> json list" where
  "arrayOrEmpty (Some (JArr xs)) = xs"
| "arrayOrEmpty v = []"

definition mergeConfigs :: "json \<Rightarrow> json \<Rightarrow> json" where
  "mergeConfigs agentrcConfig legacyConfig =
     (if \<not> truthy agentrcConfig \<and> \<not> truthy legacyConfig then JNull
      else if \<not> truthy agentrcConfig then legacyConfig
      else if \<not> truthy legacyConfig then agentrcConfig
      else JObj
        (AList.update ''project''
           (JObj (spread (spread [] (orEmptyObject (get legacyConfig ''project'')))
                    (orEmptyObject (get agentrcConfig ''project''))))
        (AList.update ''rules''
           (JArr (arrayOrEmpty (get legacyConfig ''rules'')
                  @ arrayOrEmpty (get agentrcConfig ''rules'')))
        (AList.update ''commands''
           (JObj (spread (spread [] (orEmptyObject (get legacyConfig ''commands'')))
                    (orEmptyObject (get agentrcConfig ''commands''))))
        (spread [] agentrcConfig)))))"

section \<open>Plugin initialisation\<close>




section \<open>Memory commands\<close>

text \<open>The arguments \<^verbatim>\<open>{ action, rule, ruleId }\<close> that \<^verbatim>\<open>handleMemoryCommand\<close> takes
  apart; a missing field is \<^verbatim>\<open>undefined\<close>. \<open>action\<close> and \<open>rule\<close> are strings.
  \<open>ruleId\<close> is an integer: a number, or its canonical decimal numeral as the shell
  form \<^verbatim>\<open>ruleId=0\<close> hands it over, which the indexing \<^verbatim>\<open>config.rules[ruleId]\<close>
  and \<^verbatim>\<open>splice\<close> both read as that integer. Arguments of other types are not
  covered.\<close>

record memory_args =
  action :: "string option"
  rule :: "string option"
  ruleId :: "int option"

text \<open>What \<^verbatim>\<open>handleMemoryCommand\<close> returns, one constructor per \<^verbatim>\<open>return\<close>; the
  title and the output text are determined by the constructor and its arguments.
  \<^item> \<open>ProjectRules rules commands project\<close>: title \<^verbatim>\<open>Project Rules\<close>, the output is the
    JSON text of the three values;
  \<^item> \<open>RuleAdded rule\<close>: title \<^verbatim>\<open>Rule Added\<close>, output \<^verbatim>\<open>Added rule: ${rule}\<close>;
  \<^item> \<open>RuleRemoved removedRule\<close>: title \<^verbatim>\<open>Rule Removed\<close>, output
    \<^verbatim>\<open>Removed rule: ${removedRule}\<close>, where \<open>None\<close> prints as \<^verbatim>\<open>undefined\<close>;
  \<^item> \<open>MemoryTool\<close>: title \<^verbatim>\<open>Kuuzuki Memory Tool\<close>, the usage text.\<close>

datatype memory_result =
    ProjectRules json json json
  | RuleAdded string
  | RuleRemoved "json option"
  | MemoryTool

text \<open>\<^verbatim>\<open>xs[i]\<close> on an array: the element at an index in range, \<^verbatim>\<open>undefined\<close> at any
  other integer.\<close>

definition at_index :: "json list \<Rightarrow> int \<Rightarrow> json option" where
  "at_index xs i = (if 0 \<le> i \<and> i < int (length xs) then Some (xs ! nat i) else None)"

text \<open>\<^verbatim>\<open>xs.splice(i, 1)\<close>, the array afterwards. A negative start counts from the end
  and is clamped to 0, a start beyond the end is clamped to the length; one element is
  deleted at the start if there is one.\<close>

definition splice1 :: "json list \<Rightarrow> int \<Rightarrow> json list" where
  "splice1 xs i =
     (let len = int (length xs);
          actualStart = (if i < 0 then max (len + i) 0 else min i len);
          deleteCount = min 1 (len - actualStart)
      in take (nat actualStart) xs @ drop (nat (actualStart + deleteCount)) xs)"

text \<open>\<^verbatim>\<open>if (configPath) await fs.writeFile(configPath, JSON.stringify(config, null, 2))\<close>.
  \<open>JSON_stringify\<close> stands for the runtime's \<^verbatim>\<open>JSON.stringify(_, null, 2)\<close>. The write
  is taken to succeed.\<close>

definition persist :: "(json \<Rightarrow> string) \<Rightarrow> fs \<Rightarrow> (string \<times> json) list \<Rightarrow> string option \<Rightarrow> fs" where
  "persist JSON_stringify files cfg configPath =
     (case configPath of
        None \<Rightarrow> files
      | Some p \<Rightarrow> (if p \<noteq> [] then files(p \<mapsto> JSON_stringify (JObj cfg)) else files))"

text \<open>\<^verbatim>\<open>handleMemoryCommand(args, config, configPath)\<close>. The configuration is a plain
  object, given by its properties, or \<^verbatim>\<open>null\<close> (\<open>None\<close>). The function changes the
  object in place and writes the file; here it returns its result with the configuration
  and the file system afterwards. When it throws, neither has changed.\<close>

definition handleMemoryCommand ::
  "(json \<Rightarrow> string) \<Rightarrow> fs \<Rightarrow> memory_args \<Rightarrow> (string \<times> json) list option \<Rightarrow> string option
     \<Rightarrow> error + (memory_result \<times> (string \<times> json) list option \<times> fs)" where
  "handleMemoryCommand JSON_stringify files args cfg configPath =
     (if action args = Some ''list'' then
        Inr (ProjectRules
               (case opt_get (map_option JObj cfg) ''rules'' of
                  None \<Rightarrow> JArr [] | Some v \<Rightarrow> if truthy v then v else JArr [])
               (orEmptyObject (opt_get (map_option JObj cfg) ''commands''))
               (orEmptyObject (opt_get (map_option JObj cfg) ''project'')),
             cfg, files)
      else if action args = Some ''add'' then
        (case rule args of
           None \<Rightarrow> Inl RuleTextRequired
         | Some r \<Rightarrow>
             if r = [] then Inl RuleTextRequired
             else (case cfg of
                     None \<Rightarrow> Inl NoConfigFound
                   | Some ps \<Rightarrow>
                       (case (case map_of ps ''rules'' of
                                None \<Rightarrow> JArr [] | Some v \<Rightarrow> if truthy v then v else JArr []) of
                          JArr xs \<Rightarrow>
                            (let ps' = AList.update ''rules'' (JArr (xs @ [JStr r])) ps
                             in Inr (RuleAdded r, Some ps',
                                     persist JSON_stringify files ps' configPath))
                        | _ \<Rightarrow> Inl TypeError)))
      else if action args = Some ''remove'' then
        (case ruleId args of
           None \<Rightarrow> Inl RuleIdRequired
         | Some i \<Rightarrow>
             if \<not> truthy_opt (opt_get (map_option JObj cfg) ''rules'') then Inl NoRulesFound
             else (case cfg of
                     None \<Rightarrow> Inl NoRulesFound
                   | Some ps \<Rightarrow>
                       (case map_of ps ''rules'' of
                          Some (JArr xs) \<Rightarrow>
                            (let removedRule = at_index xs i;
                                 ps' = AList.update ''rules'' (JArr (splice1 xs i)) ps
                             in Inr (RuleRemoved removedRule, Some ps',
                                     persist JSON_stringify files ps' configPath))
                        | _ \<Rightarrow> Inl TypeError)))
      else Inr (MemoryTool, cfg, files))"

subsection \<open>Arguments of a memory command given as a shell command\<close>

text \<open>\<^verbatim>\<open>s.replace(p, r)\<close> with a string pattern: the first occurrence of \<open>p\<close> is
  replaced.\<close>

fun replace_first :: "string \<Rightarrow> string \<Rightarrow> string \<Rightarrow> string" where
  "replace_first [] p r = (if p = [] then r else [])"
| "replace_first (c # cs) p r =
     (if startsWith (c # cs) p then r @ drop (length p) (c # cs)
      else c # replace_first cs p r)"




section \<open>Command Dispatcher\<close>

text \<open>A tool invocation as \<^verbatim>\<open>tool.execute.before\<close> sees it: \<^verbatim>\<open>input.tool\<close> and the
  fields \<^verbatim>\<open>filePath\<close> and \<^verbatim>\<open>command\<close> of \<^verbatim>\<open>output.args\<close>, strings when present.\<close>

record invocation =
  tool :: string
  filePath :: "string option"
  command :: "string option"

text \<open>One of the assignments
  \<^verbatim>\<open>if (cond && agentrcConfig.commands.k) output.args.command = agentrcConfig.commands.k\<close>,
  on the pending command \<open>out\<close>.\<close>

definition remap :: "bool \<Rightarrow> json option \<Rightarrow> json \<Rightarrow> json" where
  "remap cond entry out =
     (case entry of
        None \<Rightarrow> out
      | Some v \<Rightarrow> if cond \<and> truthy v then v else out)"

text \<open>The seven assignments of the command mapping, in the order of the source. Each
  tests the command as it came in, \<^verbatim>\<open>const command = output.args.command\<close>.\<close>

definition mapCommand :: "json \<Rightarrow> string \<Rightarrow> json" where
  "mapCommand commands cmd =
     remap (cmd = ''npm run dev'') (get commands ''dev'')
      (remap (str_includes cmd ''lint'') (get commands ''lint'')
        (remap (cmd = ''npm run build'') (get commands ''build'')
          (remap (cmd = ''npm run dev'') (get commands ''dev'')
            (remap (str_includes cmd ''lint'') (get commands ''lint'')
              (remap (cmd = ''npm run build'') (get commands ''build'')
                (remap (cmd = ''npm test'') (get commands ''test'') (JStr cmd)))))))"

text \<open>The block \<^verbatim>\<open>if (input.tool === "bash" && agentrcConfig?.commands)\<close>: the value of
  \<^verbatim>\<open>output.args.command\<close> after it. With no command in the arguments,
  \<^verbatim>\<open>command.includes\<close> is a \<^verbatim>\<open>TypeError\<close>.\<close>

definition commandMapping :: "json \<Rightarrow> invocation \<Rightarrow> error + json option" where
  "commandMapping agentrcConfig req =
     (case get agentrcConfig ''commands'' of
        None \<Rightarrow> Inr (map_option JStr (command req))
      | Some commands \<Rightarrow>
          if tool req = ''bash'' \<and> truthy commands
          then (case command req of
                  None \<Rightarrow> Inl TypeError
                | Some cmd \<Rightarrow> Inr (Some (mapCommand commands cmd)))
          else Inr (map_option JStr (command req)))"

text \<open>\<^verbatim>\<open>s.toLowerCase()\<close> on the letters A to Z; the other characters stay. The
  source uses the result only to look for \<^verbatim>\<open>protect .env\<close>, and no character
  outside A to Z has one of the characters of this text as its lower case.\<close>

definition toLowerCase :: "string \<Rightarrow> string" where
  "toLowerCase s =
     map (\<lambda>c. let n = (of_char c :: nat) in if 65 \<le> n \<and> n \<le> 90 then char_of (n + 32) else c) s"

text \<open>\<^verbatim>\<open>sensitiveFiles?.includes("*.env")\<close>: membership in an array, substring of a
  string, \<^verbatim>\<open>undefined\<close> on a missing or \<^verbatim>\<open>null\<close> value, and a \<^verbatim>\<open>TypeError\<close> on a
  value that has no method \<^verbatim>\<open>includes\<close>.\<close>

fun sensitiveIncludes :: "json option \<Rightarrow> error + bool" where
  "sensitiveIncludes None = Inr False"
| "sensitiveIncludes (Some JNull) = Inr False"
| "sensitiveIncludes (Some (JArr xs)) = Inr (JStr ''*.env'' \<in> set xs)"
| "sensitiveIncludes (Some (JStr s)) = Inr (str_includes s ''*.env'')"
| "sensitiveIncludes (Some v) = Inl TypeError"

text \<open>\<^verbatim>\<open>rules.some(rule => rule.toLowerCase().includes("protect .env"))\<close>: the elements
  are tested in order up to the first hit; an element that is no string has no
  \<^verbatim>\<open>toLowerCase\<close>.\<close>

fun rulesSome :: "json list \<Rightarrow> error + bool" where
  "rulesSome [] = Inr False"
| "rulesSome (JStr s # rest) =
     (if str_includes (toLowerCase s) ''protect .env'' then Inr True else rulesSome rest)"
| "rulesSome (v # rest) = Inl TypeError"

fun rulesProtectEnv :: "json option \<Rightarrow> error + bool" where
  "rulesProtectEnv None = Inr False"
| "rulesProtectEnv (Some JNull) = Inr False"
| "rulesProtectEnv (Some (JArr xs)) = rulesSome xs"
| "rulesProtectEnv (Some v) = Inl TypeError"

text \<open>The block \<^verbatim>\<open>// Security rules enforcement\<close>: it throws when the
  invocation reads a path containing \<^verbatim>\<open>.env\<close> and the left or, failing that, the right
  operand of \<^verbatim>\<open>||\<close> holds.\<close>

definition securityRules :: "json \<Rightarrow> invocation \<Rightarrow> error + unit" where
  "securityRules agentrcConfig req =
     (if tool req = ''read''
         \<and> (case filePath req of None \<Rightarrow> False | Some p \<Rightarrow> str_includes p ''.env'')
      then (case sensitiveIncludes (opt_get (get agentrcConfig ''security'') ''sensitiveFiles'') of
              Inl e \<Rightarrow> Inl e
            | Inr True \<Rightarrow> Inl SecurityDenied
            | Inr False \<Rightarrow>
                (case rulesProtectEnv (get agentrcConfig ''rules'') of
                   Inl e \<Rightarrow> Inl e
                 | Inr True \<Rightarrow> Inl SecurityDenied
                 | Inr False \<Rightarrow> Inr ()))
      else Inr ())"

text \<open>\<^verbatim>\<open>restrictedPaths.some(pattern => filePath.includes(pattern.replace("*", "")))\<close>\<close>

fun restrictedSome :: "string \<Rightarrow> json list \<Rightarrow> error + bool" where
  "restrictedSome p [] = Inr False"
| "restrictedSome p (JStr pattern # rest) =
     (if str_includes p (replace_first pattern ''*'' []) then Inr True
      else restrictedSome p rest)"
| "restrictedSome p (v # rest) = Inl TypeError"

text \<open>The block \<^verbatim>\<open>// File operation restrictions\<close>: whether the warning is sent.\<close>

definition fileRestrictions :: "json \<Rightarrow> invocation \<Rightarrow> error + bool" where
  "fileRestrictions agentrcConfig req =
     (if tool req = ''write'' \<or> tool req = ''edit''
      then (case filePath req of
              None \<Rightarrow> Inr False
            | Some p \<Rightarrow>
                if p = [] then Inr False
                else (case opt_get (get agentrcConfig ''security'') ''restrictedPaths'' of
                        None \<Rightarrow> Inr False
                      | Some (JArr xs) \<Rightarrow> restrictedSome p xs
                      | Some v \<Rightarrow> if truthy v then Inl TypeError else Inr False))
      else Inr False)"

text \<open>How \<^verbatim>\<open>tool.execute.before\<close> treats an invocation. The first three branches
  take the invocation over and return early. For them the value below names the branch
  and nothing more: what the branch then does (\<^verbatim>\<open>createDefaultAgentrc\<close> on the file
  system, or \<^verbatim>\<open>handleMemoryCommand\<close> on the parsed arguments, whose errors are thrown
  again) depends on the files, the rules and \<^verbatim>\<open>configPath\<close> and is not given by this
  function. The properties below are stated for invocations that pass the three
  branches. Such an invocation proceeds with the command the mapping left, and the flag
  tells whether the restricted-path warning was sent.\<close>

datatype outcome =
    AgentsMdIntercepted
  | InitIntercepted
  | MemoryIntercepted
  | Proceed "json option" bool

definition tool_execute_before :: "json \<Rightarrow> invocation \<Rightarrow> error + outcome" where
  "tool_execute_before agentrcConfig req =
     (if tool req = ''write''
         \<and> (case filePath req of None \<Rightarrow> False | Some p \<Rightarrow> endsWith p ''AGENTS.md'')
      then Inr AgentsMdIntercepted
      else if tool req = ''bash'' \<and> command req = Some ''/init''
      then Inr InitIntercepted
      else if tool req = ''memory''
              \<or> (tool req = ''bash''
                  \<and> (case command req of None \<Rightarrow> False | Some c \<Rightarrow> startsWith c ''memory ''))
      then Inr MemoryIntercepted
      else (case commandMapping agentrcConfig req of
              Inl e \<Rightarrow> Inl e
            | Inr cmd \<Rightarrow>
                (case securityRules agentrcConfig req of
                   Inl e \<Rightarrow> Inl e
                 | Inr u \<Rightarrow>
                     (case fileRestrictions agentrcConfig req of
                        Inl e \<Rightarrow> Inl e
                      | Inr warned \<Rightarrow> Inr (Proceed cmd warned)))))"

section \<open>A sample environment\<close>

text \<open>A concrete project for the examples below. \<open>sample_join\<close> is \<^verbatim>\<open>path.join\<close> on
  segments that need no normalising: they are joined with a slash. \<open>sample_parse\<close>
  agrees with \<^verbatim>\<open>JSON.parse\<close> on the texts the examples read, which are \<^verbatim>\<open>42\<close>,
  \<^verbatim>\<open>{}\<close>, \<^verbatim>\<open>{"project":{"name":5}}\<close> and the unparseable \<^verbatim>\<open>{\<close>; \<open>sample_stringify\<close> is \<^verbatim>\<open>JSON.stringify(_, null, 2)\<close> on the two configurations
  spelled out in it.\<close>

fun sample_join :: "string list \<Rightarrow> string" where
  "sample_join [] = ''.''"
| "sample_join [s] = s"
| "sample_join (s # ss) = s @ ''/'' @ sample_join ss"

definition sample_app :: app where
  "sample_app = \<lparr>path_root = ''/proj'', path_config = ''/home/u/.config/opencode'',
                 env_HOME = ''/home/u''\<rparr>"

definition sample_parse :: "string \<Rightarrow> json option" where
  \<open>sample_parse =
     map_of [(''42'', JNum 42), (''{}'', JObj []),
             (''{"project":{"name":5}}'', JObj [(''project'', JObj [(''name'', JNum 5)])])]\<close>

definition sample_stringify :: "json \<Rightarrow> string" where
  \<open>sample_stringify =
     (\<lambda>v. if v = JObj [(''rules'', JArr [JStr ''A'', JStr ''X''])]
          then ''{'' @ [CHR 0x0A] @ ''  "rules": ['' @ [CHR 0x0A] @ ''    "A",'' @ [CHR 0x0A]
               @ ''    "X"'' @ [CHR 0x0A] @ ''  ]'' @ [CHR 0x0A] @ ''}''
          else if v = JObj [(''rules'', JArr [JStr ''X''])]
          then ''{'' @ [CHR 0x0A] @ ''  "rules": ['' @ [CHR 0x0A] @ ''    "X"'' @ [CHR 0x0A]
               @ ''  ]'' @ [CHR 0x0A] @ ''}''
          else [])\<close>



definition files_legacy_only :: fs where
  "files_legacy_only = map_of [(''/proj/AGENTS.md'', ''- Follow style: be consistent'')]"

definition files_two_test_commands :: fs where
  "files_two_test_commands =
     map_of [(''/proj/AGENTS.md'',
              ''Run '' @ [tick] @ ''npm test'' @ [tick] @ [CHR 0x0A]
              @ ''Then '' @ [tick] @ ''npm run test:unit'' @ [tick])]"

section \<open>Properties of the Config Locator\<close>

lemma validate_object: "validateAgentrcConfig (JObj ps) = Inr (JObj ps)"
  by (simp add: validateAgentrcConfig_def)






text \<open>
  C7. A JSON object at the project-root path is what the Locator returns, with that
  path, and the result is the same on every file system that agrees on this one path:
  the other two locations are not consulted. If the project-root file cannot be read or
  does not parse while the global path holds an object, the Locator returns the global
  object with the global path.
\<close>

theorem locator_project_root_wins:
  assumes "p = path_join [path_root a, ''.agentrc'']"
      and "g = path_join [path_config a, ''.agentrc'']"
  shows "(files p = Some content \<and> JSON_parse content = Some (JObj ps)
            \<longrightarrow> (\<forall>files'. files' p = files p
                   \<longrightarrow> loadAgentrcConfig JSON_parse path_join files' a = Inr (JObj ps, Some p)))
       \<and> ((files p = None \<or> (\<exists>c. files p = Some c \<and> JSON_parse c = None))
            \<and> files g = Some gcontent \<and> JSON_parse gcontent = Some (JObj gs)
            \<longrightarrow> loadAgentrcConfig JSON_parse path_join files a = Inr (JObj gs, Some g))"
  using assms
  by (auto simp: loadAgentrcConfig_def locations_def validate_object)

theorem locator_project_root_wins_witness:
  "sample_parse ''{}'' = Some (JObj [])
   \<and> loadAgentrcConfig sample_parse sample_join
        (map_of [(''/proj/.agentrc'', ''{}''), (''/home/u/.config/opencode/.agentrc'', ''42'')])
        sample_app = Inr (JObj [], Some ''/proj/.agentrc'')
   \<and> loadAgentrcConfig sample_parse sample_join
        (map_of [(''/proj/.agentrc'', ''{''), (''/home/u/.config/opencode/.agentrc'', ''{}'')])
        sample_app = Inr (JObj [], Some ''/home/u/.config/opencode/.agentrc'')"
proof -
  have p: "''/proj/.agentrc'' = sample_join [path_root sample_app, ''.agentrc'']"
    by (simp add: sample_app_def)
  have g: "''/home/u/.config/opencode/.agentrc'' = sample_join [path_config sample_app, ''.agentrc'']"
    by (simp add: sample_app_def)
  have parse: "sample_parse ''{}'' = Some (JObj [])" "sample_parse ''{'' = None"
    by (simp_all add: sample_parse_def)
  note project = locator_project_root_wins [OF p g, where JSON_parse = sample_parse
      and content = "''{}''" and ps = "[]"
      and files = "map_of [(''/proj/.agentrc'', ''{}''), (''/home/u/.config/opencode/.agentrc'', ''42'')]"]
  note global = locator_project_root_wins [OF p g, where JSON_parse = sample_parse
      and gcontent = "''{}''" and gs = "[]"
      and files = "map_of [(''/proj/.agentrc'', ''{''), (''/home/u/.config/opencode/.agentrc'', ''{}'')]"]
  from project have a1: "loadAgentrcConfig sample_parse sample_join
        (map_of [(''/proj/.agentrc'', ''{}''), (''/home/u/.config/opencode/.agentrc'', ''42'')])
        sample_app = Inr (JObj [], Some ''/proj/.agentrc'')"
    using parse by simp
  from global have a2: "loadAgentrcConfig sample_parse sample_join
        (map_of [(''/proj/.agentrc'', ''{''), (''/home/u/.config/opencode/.agentrc'', ''{}'')])
        sample_app = Inr (JObj [], Some ''/home/u/.config/opencode/.agentrc'')"
    using parse by simp
  from a1 a2 parse show ?thesis by simp
qed




section \<open>Properties of the Config Merger\<close>

lemma get_Some_truthy: "get v k = Some x \<Longrightarrow> truthy v"
  by (cases v) simp_all

text \<open>
  C2. When the primary configuration \<open>P\<close> and the legacy configuration \<open>L\<close> both
  have a list of rules, the rules of the merge are those of \<open>L\<close> followed by those of
  \<open>P\<close>. Merging a configuration with none gives it back, on either side (a
  configuration is an object, and so truthy), and merging none with none gives none.
\<close>

theorem mergeConfigs_rules_and_identities:
  "(get P ''rules'' = Some (JArr pr) \<and> get L ''rules'' = Some (JArr lr)
      \<longrightarrow> get (mergeConfigs P L) ''rules'' = Some (JArr (lr @ pr)))
   \<and> (truthy P \<longrightarrow> mergeConfigs P JNull = P)
   \<and> (truthy L \<longrightarrow> mergeConfigs JNull L = L)
   \<and> mergeConfigs JNull JNull = JNull"
proof -
  have rules: "get (mergeConfigs P L) ''rules'' = Some (JArr (lr @ pr))"
    if p: "get P ''rules'' = Some (JArr pr)" and l: "get L ''rules'' = Some (JArr lr)"
  proof -
    from p l have "truthy P" "truthy L" by (auto dest: get_Some_truthy)
    then show ?thesis
      by (simp add: mergeConfigs_def AList.update_conv' p l)
  qed
  show ?thesis
    using rules by (simp add: mergeConfigs_def)
qed

theorem mergeConfigs_rules_and_identities_witness:
  "get (mergeConfigs (JObj [(''rules'', JArr [JStr ''R1''])])
                     (JObj [(''rules'', JArr [JStr ''R0''])])) ''rules''
     = Some (JArr [JStr ''R0'', JStr ''R1''])
   \<and> mergeConfigs (JObj [(''rules'', JArr [JStr ''R1''])]) JNull
       = JObj [(''rules'', JArr [JStr ''R1''])]
   \<and> mergeConfigs JNull (JObj [(''rules'', JArr [JStr ''R0''])])
       = JObj [(''rules'', JArr [JStr ''R0''])]"
  using mergeConfigs_rules_and_identities
    [of "JObj [(''rules'', JArr [JStr ''R1''])]" "[JStr ''R1'']"
        "JObj [(''rules'', JArr [JStr ''R0''])]" "[JStr ''R0'']"]
  by simp

section \<open>Properties of the memory commands\<close>

lemma splice1_in_range:
  "0 \<le> i \<Longrightarrow> i < int (length xs) \<Longrightarrow> splice1 xs i = take (nat i) xs @ drop (Suc (nat i)) xs"
  by (simp add: splice1_def Let_def min_def nat_add_distrib)

lemma splice1_beyond: "int (length xs) \<le> i \<Longrightarrow> splice1 xs i = xs"
  by (simp add: splice1_def Let_def min_def)

lemma at_index_in_range:
  "0 \<le> i \<Longrightarrow> i < int (length xs) \<Longrightarrow> at_index xs i = Some (xs ! nat i)"
  by (simp add: at_index_def)

lemma at_index_out_of_range: "i < 0 \<or> int (length xs) \<le> i \<Longrightarrow> at_index xs i = None"
  by (auto simp: at_index_def)

lemma remove_nth_shift:
  assumes "n < length xs" "j < length xs - 1"
  shows "(take n xs @ drop (Suc n) xs) ! j = (if j < n then xs ! j else xs ! Suc j)"
  using assms by (auto simp: nth_append min_def)

lemma handle_add:
  assumes "map_of ps ''rules'' = Some (JArr xs)" "r \<noteq> []"
    "action args = Some ''add''" "rule args = Some r"
  shows "handleMemoryCommand S files args (Some ps) cp
         = Inr (RuleAdded r, Some (AList.update ''rules'' (JArr (xs @ [JStr r])) ps),
                persist S files (AList.update ''rules'' (JArr (xs @ [JStr r])) ps) cp)"
  using assms by (simp add: handleMemoryCommand_def Let_def)

lemma handle_remove:
  assumes "map_of ps ''rules'' = Some (JArr xs)"
    "action args = Some ''remove''" "ruleId args = Some i"
  shows "handleMemoryCommand S files args (Some ps) cp
         = Inr (RuleRemoved (at_index xs i), Some (AList.update ''rules'' (JArr (splice1 xs i)) ps),
                persist S files (AList.update ''rules'' (JArr (splice1 xs i)) ps) cp)"
  using assms by (simp add: handleMemoryCommand_def Let_def)




text \<open>
  C9. On a configuration with a list of rules, \<^verbatim>\<open>add\<close> with a rule text puts the rule
  at the end of the list. \<^verbatim>\<open>remove\<close> at an index in range reports the element at that
  index and leaves the list without it: one shorter, the elements before the index in
  place and each later element one position down. Starting from the rules \<^verbatim>\<open>["A"]\<close>,
  adding \<^verbatim>\<open>X\<close> and then removing index 0 leaves \<^verbatim>\<open>["X"]\<close>.
\<close>

theorem memory_add_appends_remove_shifts:
  assumes "map_of ps ''rules'' = Some (JArr xs)"
  shows "(r \<noteq> [] \<longrightarrow>
           (\<exists>ps' files'.
              handleMemoryCommand S files \<lparr>action = Some ''add'', rule = Some r, ruleId = rid\<rparr>
                  (Some ps) cp
                = Inr (RuleAdded r, Some ps', files')
              \<and> map_of ps' ''rules'' = Some (JArr (xs @ [JStr r]))))
       \<and> (0 \<le> i \<and> i < int (length xs) \<longrightarrow>
           (\<exists>ps' files' ys.
              handleMemoryCommand S files \<lparr>action = Some ''remove'', rule = rl, ruleId = Some i\<rparr>
                  (Some ps) cp
                = Inr (RuleRemoved (Some (xs ! nat i)), Some ps', files')
              \<and> map_of ps' ''rules'' = Some (JArr ys)
              \<and> ys = take (nat i) xs @ drop (Suc (nat i)) xs
              \<and> length ys = length xs - 1
              \<and> (\<forall>j < length ys. ys ! j = (if j < nat i then xs ! j else xs ! Suc j))))
       \<and> (\<exists>ps1 files1 ps2 files2.
             handleMemoryCommand S files \<lparr>action = Some ''add'', rule = Some ''X'', ruleId = None\<rparr>
                 (Some [(''rules'', JArr [JStr ''A''])]) cp
               = Inr (RuleAdded ''X'', Some ps1, files1)
             \<and> handleMemoryCommand S files1 \<lparr>action = Some ''remove'', rule = None, ruleId = Some 0\<rparr>
                 (Some ps1) cp
               = Inr (RuleRemoved (Some (JStr ''A'')), Some ps2, files2)
             \<and> ps2 = [(''rules'', JArr [JStr ''X''])])"
proof -
  have add: "\<exists>ps' files'.
          handleMemoryCommand S files \<lparr>action = Some ''add'', rule = Some r, ruleId = rid\<rparr> (Some ps) cp
            = Inr (RuleAdded r, Some ps', files')
          \<and> map_of ps' ''rules'' = Some (JArr (xs @ [JStr r]))" if r: "r \<noteq> []"
    using handle_add [OF assms r, of "\<lparr>action = Some ''add'', rule = Some r, ruleId = rid\<rparr>" S files cp]
    by (simp add: AList.update_conv')
  have remove: "\<exists>ps' files' ys.
          handleMemoryCommand S files \<lparr>action = Some ''remove'', rule = rl, ruleId = Some i\<rparr> (Some ps) cp
            = Inr (RuleRemoved (Some (xs ! nat i)), Some ps', files')
          \<and> map_of ps' ''rules'' = Some (JArr ys)
          \<and> ys = take (nat i) xs @ drop (Suc (nat i)) xs
          \<and> length ys = length xs - 1
          \<and> (\<forall>j < length ys. ys ! j = (if j < nat i then xs ! j else xs ! Suc j))"
    if i: "0 \<le> i \<and> i < int (length xs)"
  proof -
    from i have n: "nat i < length xs" by linarith
    let ?ys = "take (nat i) xs @ drop (Suc (nat i)) xs"
    have len: "length ?ys = length xs - 1" using n by simp
    have shift: "\<forall>j < length ?ys. ?ys ! j = (if j < nat i then xs ! j else xs ! Suc j)"
      using remove_nth_shift [OF n] len by simp
    have "handleMemoryCommand S files \<lparr>action = Some ''remove'', rule = rl, ruleId = Some i\<rparr> (Some ps) cp
           = Inr (RuleRemoved (Some (xs ! nat i)), Some (AList.update ''rules'' (JArr ?ys) ps),
                  persist S files (AList.update ''rules'' (JArr ?ys) ps) cp)"
      using handle_remove [OF assms, of "\<lparr>action = Some ''remove'', rule = rl, ruleId = Some i\<rparr>" i S files cp] i
      by (simp add: splice1_in_range at_index_in_range)
    with len shift show ?thesis by (simp add: AList.update_conv')
  qed
  have scenario: "\<exists>ps1 files1 ps2 files2.
             handleMemoryCommand S files \<lparr>action = Some ''add'', rule = Some ''X'', ruleId = None\<rparr>
                 (Some [(''rules'', JArr [JStr ''A''])]) cp
               = Inr (RuleAdded ''X'', Some ps1, files1)
             \<and> handleMemoryCommand S files1 \<lparr>action = Some ''remove'', rule = None, ruleId = Some 0\<rparr>
                 (Some ps1) cp
               = Inr (RuleRemoved (Some (JStr ''A'')), Some ps2, files2)
             \<and> ps2 = [(''rules'', JArr [JStr ''X''])]"
    by (simp add: handleMemoryCommand_def Let_def at_index_def splice1_def)
  from add remove scenario show ?thesis by blast
qed

theorem memory_add_appends_remove_shifts_witness:
  "handleMemoryCommand sample_stringify files_legacy_only
      \<lparr>action = Some ''add'', rule = Some ''X'', ruleId = None\<rparr>
      (Some [(''rules'', JArr [JStr ''A''])]) None
     = Inr (RuleAdded ''X'', Some [(''rules'', JArr [JStr ''A'', JStr ''X''])], files_legacy_only)
   \<and> handleMemoryCommand sample_stringify files_legacy_only
      \<lparr>action = Some ''remove'', rule = None, ruleId = Some 0\<rparr>
      (Some [(''rules'', JArr [JStr ''A'', JStr ''X''])]) None
     = Inr (RuleRemoved (Some (JStr ''A'')), Some [(''rules'', JArr [JStr ''X''])], files_legacy_only)"
proof -
  have rules1: "map_of [(''rules'', JArr [JStr ''A''])] ''rules'' = Some (JArr [JStr ''A''])"
    by simp
  have rules2: "map_of [(''rules'', JArr [JStr ''A'', JStr ''X''])] ''rules''
                  = Some (JArr [JStr ''A'', JStr ''X''])"
    by simp
  note added = memory_add_appends_remove_shifts [OF rules1, where r = "''X''"
      and S = sample_stringify and files = files_legacy_only and rid = None and cp = None
      and i = 0 and rl = None]
  note removed = memory_add_appends_remove_shifts [OF rules2, where r = "''X''"
      and S = sample_stringify and files = files_legacy_only and rid = None and cp = None
      and i = 0 and rl = None]
  from added removed show ?thesis
    by (simp add: handleMemoryCommand_def Let_def persist_def at_index_def splice1_def)
qed

text \<open>
  C3, as the specification has it, fails: on the rules \<^verbatim>\<open>["A"]\<close>, \<^verbatim>\<open>remove\<close> with
  the index 5 raises nothing. It returns the confirmation, naming \<^verbatim>\<open>undefined\<close> as the
  removed rule.
\<close>

theorem remove_out_of_range_counterexample:
  "handleMemoryCommand sample_stringify files_legacy_only
     \<lparr>action = Some ''remove'', rule = None, ruleId = Some 5\<rparr>
     (Some [(''rules'', JArr [JStr ''A''])]) None
   = Inr (RuleRemoved None, Some [(''rules'', JArr [JStr ''A''])], files_legacy_only)"
  by (simp add: handleMemoryCommand_def at_index_def splice1_def persist_def Let_def)

text \<open>
  C3, amended. On a configuration with a list of rules, \<^verbatim>\<open>remove\<close> with an index out
  of range raises no error: it returns the confirmation with \<^verbatim>\<open>undefined\<close> as the
  removed rule. With an index at or beyond the length the configuration, and so the list
  of rules, is unchanged, and it is this unchanged configuration that is persisted.
\<close>

theorem remove_out_of_range_succeeds:
  assumes "map_of ps ''rules'' = Some (JArr xs)"
  shows "(i < 0 \<or> int (length xs) \<le> i \<longrightarrow>
           (\<exists>ps' files'.
              handleMemoryCommand S files \<lparr>action = Some ''remove'', rule = rl, ruleId = Some i\<rparr>
                  (Some ps) cp
                = Inr (RuleRemoved None, Some ps', files')))
       \<and> (int (length xs) \<le> i \<longrightarrow>
            handleMemoryCommand S files \<lparr>action = Some ''remove'', rule = rl, ruleId = Some i\<rparr>
                (Some ps) cp
              = Inr (RuleRemoved None, Some ps, persist S files ps cp))"
  using handle_remove [OF assms, of "\<lparr>action = Some ''remove'', rule = rl, ruleId = Some i\<rparr>" i S files cp]
  by (auto simp: at_index_out_of_range splice1_beyond AList.update_triv [OF assms])

theorem remove_out_of_range_succeeds_witness:
  "map_of [(''rules'', JArr [JStr ''A'', JStr ''B''])] ''rules'' = Some (JArr [JStr ''A'', JStr ''B''])
   \<and> int (length [JStr ''A'', JStr ''B'']) \<le> 2
   \<and> handleMemoryCommand sample_stringify files_legacy_only
        \<lparr>action = Some ''remove'', rule = None, ruleId = Some 2\<rparr>
        (Some [(''rules'', JArr [JStr ''A'', JStr ''B''])]) None
      = Inr (RuleRemoved None, Some [(''rules'', JArr [JStr ''A'', JStr ''B''])], files_legacy_only)"
proof -
  have rules: "map_of [(''rules'', JArr [JStr ''A'', JStr ''B''])] ''rules''
                 = Some (JArr [JStr ''A'', JStr ''B''])"
    by simp
  from remove_out_of_range_succeeds [OF rules, where i = 2 and S = sample_stringify
      and files = files_legacy_only and rl = None and cp = None]
  show ?thesis by (simp add: persist_def)
qed




section \<open>Properties of the Command Dispatcher\<close>

lemma commandMapping_not_bash:
  "tool req \<noteq> ''bash'' \<Longrightarrow> commandMapping cfg req = Inr (map_option JStr (command req))"
  by (simp add: commandMapping_def split: option.splits)

lemma commandMapping_bash:
  "tool req = ''bash'' \<Longrightarrow> command req = Some cmd \<Longrightarrow>
   commandMapping cfg req =
     Inr (Some (case get cfg ''commands'' of
                  None \<Rightarrow> JStr cmd
                | Some m \<Rightarrow> if truthy m then mapCommand m cmd else JStr cmd))"
  by (simp add: commandMapping_def split: option.splits)

lemma hook_bash:
  assumes "tool req = ''bash''"
  shows "tool_execute_before cfg req =
     (if command req = Some ''/init'' then Inr InitIntercepted
      else if (case command req of None \<Rightarrow> False | Some c \<Rightarrow> startsWith c ''memory '')
      then Inr MemoryIntercepted
      else (case commandMapping cfg req of Inl e \<Rightarrow> Inl e | Inr cmd \<Rightarrow> Inr (Proceed cmd False)))"
  using assms
  by (simp add: tool_execute_before_def securityRules_def fileRestrictions_def split: sum.splits)

lemma commandMapping_cong:
  "tool req = tool req' \<Longrightarrow> command req = command req' \<Longrightarrow>
   get cfg ''commands'' = get cfg' ''commands'' \<Longrightarrow>
   commandMapping cfg req = commandMapping cfg' req'"
  by (auto simp: commandMapping_def split: option.splits)

lemma remap_unchanged: "(cond \<longrightarrow> \<not> truthy_opt entry) \<Longrightarrow> remap cond entry out = out"
  by (cases entry) (auto simp: remap_def)

lemma mapCommand_unchanged:
  assumes "cmd = ''npm test'' \<longrightarrow> \<not> truthy_opt (get m ''test'')"
      and "cmd = ''npm run build'' \<longrightarrow> \<not> truthy_opt (get m ''build'')"
      and "str_includes cmd ''lint'' \<longrightarrow> \<not> truthy_opt (get m ''lint'')"
      and "cmd = ''npm run dev'' \<longrightarrow> \<not> truthy_opt (get m ''dev'')"
  shows "mapCommand m cmd = JStr cmd"
  using assms by (simp add: mapCommand_def remap_unchanged)

lemma rulesSome_strings:
  "rulesSome (map JStr rs) = Inr (\<exists>r \<in> set rs. str_includes (toLowerCase r) ''protect .env'')"
  by (induction rs) auto

lemma hook_read:
  assumes "tool req = ''read''"
  shows "tool_execute_before cfg req =
     (case securityRules cfg req of Inl e \<Rightarrow> Inl e
      | Inr u \<Rightarrow> Inr (Proceed (map_option JStr (command req)) False))"
  using assms
  by (simp add: tool_execute_before_def commandMapping_not_bash fileRestrictions_def
      split: sum.splits)

lemma toLowerCase_sample: "toLowerCase ''Protect .env files'' = ''protect .env files''"
  by code_simp

text \<open>
  C8. The command mapping is reached by the shell invocations whose command is neither
  \<^verbatim>\<open>/init\<close> nor a memory command. For these the outcome of the hook is a function of
  the command string and of the \<^verbatim>\<open>commands\<close> entry of the configuration: two such
  invocations with the same command under configurations with the same \<^verbatim>\<open>commands\<close>
  have the same outcome, whatever else the configurations and the arguments hold. Such a
  command proceeds unaltered when the configuration has no
  entry for it: none for \<^verbatim>\<open>test\<close> when the command is \<^verbatim>\<open>npm test\<close>, none for
  \<^verbatim>\<open>build\<close> when it is \<^verbatim>\<open>npm run build\<close>, none for \<^verbatim>\<open>lint\<close> when it contains
  \<^verbatim>\<open>lint\<close>, none for \<^verbatim>\<open>dev\<close> when it is \<^verbatim>\<open>npm run dev\<close>. With
  \<^verbatim>\<open>commands.build\<close> set to \<^verbatim>\<open>make all\<close>, the command \<^verbatim>\<open>npm run build\<close> proceeds
  as \<^verbatim>\<open>make all\<close>.
\<close>

theorem command_mapping_pure:
  "(tool req = ''bash'' \<and> tool req' = ''bash''
      \<and> command req = Some cmd \<and> command req' = Some cmd
      \<and> cmd \<noteq> ''/init'' \<and> \<not> startsWith cmd ''memory ''
      \<and> get cfg ''commands'' = get cfg' ''commands''
      \<longrightarrow> tool_execute_before cfg req = tool_execute_before cfg' req')
   \<and> (tool req = ''bash'' \<and> command req = Some cmd \<and> cmd \<noteq> ''/init''
        \<and> \<not> startsWith cmd ''memory ''
        \<and> (\<forall>m. get cfg ''commands'' = Some m \<and> truthy m \<longrightarrow>
              (cmd = ''npm test'' \<longrightarrow> \<not> truthy_opt (get m ''test''))
              \<and> (cmd = ''npm run build'' \<longrightarrow> \<not> truthy_opt (get m ''build''))
              \<and> (str_includes cmd ''lint'' \<longrightarrow> \<not> truthy_opt (get m ''lint''))
              \<and> (cmd = ''npm run dev'' \<longrightarrow> \<not> truthy_opt (get m ''dev'')))
      \<longrightarrow> tool_execute_before cfg req = Inr (Proceed (Some (JStr cmd)) False))
   \<and> tool_execute_before
        (JObj [(''commands'', JObj [(''build'', JStr ''make all'')])])
        \<lparr>tool = ''bash'', filePath = None, command = Some ''npm run build''\<rparr>
      = Inr (Proceed (Some (JStr ''make all'')) False)"
proof -
  have pure: "tool_execute_before cfg req = tool_execute_before cfg' req'"
    if "tool req = ''bash'' \<and> tool req' = ''bash''
      \<and> command req = Some cmd \<and> command req' = Some cmd
      \<and> cmd \<noteq> ''/init'' \<and> \<not> startsWith cmd ''memory ''
      \<and> get cfg ''commands'' = get cfg' ''commands''"
    using that commandMapping_cong [of req req' cfg cfg'] by (simp add: hook_bash)
  have unchanged: "tool_execute_before cfg req = Inr (Proceed (Some (JStr cmd)) False)"
    if h: "tool req = ''bash'' \<and> command req = Some cmd \<and> cmd \<noteq> ''/init''
        \<and> \<not> startsWith cmd ''memory ''
        \<and> (\<forall>m. get cfg ''commands'' = Some m \<and> truthy m \<longrightarrow>
              (cmd = ''npm test'' \<longrightarrow> \<not> truthy_opt (get m ''test''))
              \<and> (cmd = ''npm run build'' \<longrightarrow> \<not> truthy_opt (get m ''build''))
              \<and> (str_includes cmd ''lint'' \<longrightarrow> \<not> truthy_opt (get m ''lint''))
              \<and> (cmd = ''npm run dev'' \<longrightarrow> \<not> truthy_opt (get m ''dev'')))"
  proof -
    have "(case get cfg ''commands'' of
                  None \<Rightarrow> JStr cmd
                | Some m \<Rightarrow> if truthy m then mapCommand m cmd else JStr cmd) = JStr cmd"
      using h by (auto split: option.splits intro: mapCommand_unchanged)
    with h show ?thesis
      by (simp add: hook_bash commandMapping_bash)
  qed
  have scenario: "tool_execute_before
        (JObj [(''commands'', JObj [(''build'', JStr ''make all'')])])
        \<lparr>tool = ''bash'', filePath = None, command = Some ''npm run build''\<rparr>
      = Inr (Proceed (Some (JStr ''make all'')) False)"
    by (simp add: hook_bash commandMapping_bash mapCommand_def remap_def startsWith_def)
  from pure unchanged scenario show ?thesis by blast
qed

theorem command_mapping_pure_witness:
  "tool_execute_before (JObj [(''commands'', JObj [(''build'', JStr ''make all'')])])
      \<lparr>tool = ''bash'', filePath = None, command = Some ''npm test''\<rparr>
     = Inr (Proceed (Some (JStr ''npm test'')) False)
   \<and> tool_execute_before
       (JObj [(''rules'', JArr [JStr ''R'']), (''commands'', JObj [(''build'', JStr ''make all'')])])
       \<lparr>tool = ''bash'', filePath = Some ''a.txt'', command = Some ''npm test''\<rparr>
     = Inr (Proceed (Some (JStr ''npm test'')) False)"
  using command_mapping_pure
    [where req = "\<lparr>tool = ''bash'', filePath = None, command = Some ''npm test''\<rparr>"
      and req' = "\<lparr>tool = ''bash'', filePath = Some ''a.txt'', command = Some ''npm test''\<rparr>"
      and cfg = "JObj [(''commands'', JObj [(''build'', JStr ''make all'')])]"
      and cfg' = "JObj [(''rules'', JArr [JStr ''R'']),
                        (''commands'', JObj [(''build'', JStr ''make all'')])]"
      and cmd = "''npm test''"]
  by (simp add: hook_bash commandMapping_bash mapCommand_def remap_def startsWith_def)

text \<open>
  C5, as the specification has it, fails in its second half: with no security section
  and the rule \<^verbatim>\<open>Protect .env files\<close>, reading \<^verbatim>\<open>.env\<close> is denied.
\<close>

theorem env_read_denied_by_rule_counterexample:
  "get (JObj [(''rules'', JArr [JStr ''Protect .env files''])]) ''security'' = None
   \<and> str_includes ''.env'' ''.env''
   \<and> tool_execute_before (JObj [(''rules'', JArr [JStr ''Protect .env files''])])
        \<lparr>tool = ''read'', filePath = Some ''.env'', command = None\<rparr>
      = Inl SecurityDenied"
  by (simp add: hook_read securityRules_def toLowerCase_sample startsWith_def)

text \<open>
  C5, amended. For an invocation that reads a path containing \<^verbatim>\<open>.env\<close>: when
  \<^verbatim>\<open>security.sensitiveFiles\<close> is a list that contains \<^verbatim>\<open>*.env\<close> the invocation
  fails with \<open>SecurityDenied\<close>; when the configuration has no security section, the
  invocation proceeds if there are no rules, and with a list of rule texts it fails with
  \<open>SecurityDenied\<close> exactly when one of them contains \<^verbatim>\<open>protect .env\<close> in any
  letter case, and proceeds otherwise.
\<close>

theorem env_read_denied:
  assumes "tool req = ''read''" and "filePath req = Some p" and "str_includes p ''.env''"
  shows "(get cfg ''security'' = Some sec \<and> get sec ''sensitiveFiles'' = Some (JArr sf)
            \<and> JStr ''*.env'' \<in> set sf
          \<longrightarrow> tool_execute_before cfg req = Inl SecurityDenied)
       \<and> (get cfg ''security'' = None \<and> get cfg ''rules'' = None
          \<longrightarrow> tool_execute_before cfg req = Inr (Proceed (map_option JStr (command req)) False))
       \<and> (get cfg ''security'' = None \<and> get cfg ''rules'' = Some (JArr (map JStr rs))
          \<longrightarrow> tool_execute_before cfg req =
                (if \<exists>r \<in> set rs. str_includes (toLowerCase r) ''protect .env''
                 then Inl SecurityDenied
                 else Inr (Proceed (map_option JStr (command req)) False)))"
  using assms
  by (auto simp: hook_read securityRules_def rulesSome_strings)

theorem env_read_denied_witness:
  "tool_execute_before
      (JObj [(''security'', JObj [(''sensitiveFiles'', JArr [JStr ''*.env''])])])
      \<lparr>tool = ''read'', filePath = Some ''.env'', command = None\<rparr>
     = Inl SecurityDenied
   \<and> tool_execute_before (JObj [])
      \<lparr>tool = ''read'', filePath = Some ''.env'', command = None\<rparr>
     = Inr (Proceed None False)
   \<and> tool_execute_before (JObj [(''rules'', JArr [JStr ''Protect .env files''])])
      \<lparr>tool = ''read'', filePath = Some ''.env'', command = None\<rparr>
     = Inl SecurityDenied"
proof -
  have hyps: "tool \<lparr>tool = ''read'', filePath = Some ''.env'', command = None\<rparr> = ''read''"
    "filePath \<lparr>tool = ''read'', filePath = Some ''.env'', command = None\<rparr> = Some ''.env''"
    "str_includes ''.env'' ''.env''"
    by (simp_all add: startsWith_def)
  note by_glob = env_read_denied [OF hyps,
      where cfg = "JObj [(''security'', JObj [(''sensitiveFiles'', JArr [JStr ''*.env''])])]"
        and sec = "JObj [(''sensitiveFiles'', JArr [JStr ''*.env''])]" and sf = "[JStr ''*.env'']"
        and rs = "[]"]
  note no_config = env_read_denied [OF hyps, where cfg = "JObj []" and sec = JNull and sf = "[]"
        and rs = "[]"]
  note by_rule = env_read_denied [OF hyps,
      where cfg = "JObj [(''rules'', JArr [JStr ''Protect .env files''])]" and sec = JNull
        and sf = "[]" and rs = "[''Protect .env files'']"]
  from by_glob have a: "tool_execute_before
      (JObj [(''security'', JObj [(''sensitiveFiles'', JArr [JStr ''*.env''])])])
      \<lparr>tool = ''read'', filePath = Some ''.env'', command = None\<rparr>
     = Inl SecurityDenied"
    by simp
  from no_config have b: "tool_execute_before (JObj [])
      \<lparr>tool = ''read'', filePath = Some ''.env'', command = None\<rparr>
     = Inr (Proceed None False)"
    by simp
  from by_rule have c: "tool_execute_before (JObj [(''rules'', JArr [JStr ''Protect .env files''])])
      \<lparr>tool = ''read'', filePath = Some ''.env'', command = None\<rparr>
     = Inl SecurityDenied"
    by (simp add: toLowerCase_sample startsWith_def)
  from a b c show ?thesis by simp
qed

section \<open>Properties of the Legacy Config Extractor\<close>

lemma assignCommand_lookup:
  "map_of (assignCommand word cmd cs) w =
     (if w = word \<and> str_includes cmd word then Some cmd else map_of cs w)"
  by (simp add: assignCommand_def AList.update_conv')

lemma assignCommands_lookup:
  assumes "w \<in> {''test'', ''build'', ''lint''}"
  shows "map_of (assignCommands cmd cs) w = (if str_includes cmd w then Some cmd else map_of cs w)"
  using assms by (auto simp: assignCommands_def assignCommand_lookup)

lemma scanLine_commands:
  assumes "w \<in> {''test'', ''build'', ''lint''}"
  shows "map_of (legacy_commands (scanLine lc line)) w =
     (case extractCommand line of
        None \<Rightarrow> map_of (legacy_commands lc) w
      | Some cmd \<Rightarrow> if str_includes cmd w then Some cmd else map_of (legacy_commands lc) w)"
  using assignCommands_lookup [OF assms]
  by (simp add: scanLine_def Let_def split: option.splits)

text \<open>
  C4, as the specification has it, fails: with the two lines \<^verbatim>\<open>Run `npm test`\<close> and
  \<^verbatim>\<open>Then `npm run test:unit`\<close> in \<^verbatim>\<open>AGENTS.md\<close>, the \<^verbatim>\<open>test\<close> command of the
  legacy configuration is the one of the second line.
\<close>

theorem legacy_command_overwritten_counterexample:
  "loadLegacyConfigs sample_join files_two_test_commands sample_app
     = JObj [(''rules'', JArr []),
             (''commands'', JObj [(''test'', JStr ''npm run test:unit'')]),
             (''project'', JObj [])]"
  by code_simp

text \<open>
  C4, amended. Scanning the lines of a file, each line that contains a backtick followed
  by \<^verbatim>\<open>npm \<close>, \<^verbatim>\<open>bun \<close> or \<^verbatim>\<open>yarn \<close> yields its first backtick-quoted text. For
  each of the categories \<^verbatim>\<open>test\<close>, \<^verbatim>\<open>build\<close> and \<^verbatim>\<open>lint\<close>, the \<^verbatim>\<open>commands\<close> key
  afterwards holds the last yielded text that contains the category's name: a later match
  overwrites an earlier one. With no such text the key is as it was before the scan.
\<close>

theorem legacy_command_last_match_wins:
  assumes "w \<in> {''test'', ''build'', ''lint''}"
  shows "map_of (legacy_commands (foldl scanLine lc ls)) w =
     (let matches = filter (\<lambda>cmd. str_includes cmd w) (List.map_filter extractCommand ls)
      in if matches = [] then map_of (legacy_commands lc) w else Some (last matches))"
proof (induction ls arbitrary: lc)
  case Nil
  then show ?case by (simp add: List.map_filter_simps)
next
  case (Cons line ls)
  show ?case
    by (simp add: Cons.IH scanLine_commands [OF assms] List.map_filter_simps Let_def
        split: option.splits)
qed

theorem legacy_command_last_match_wins_witness:
  "map_of (legacy_commands
      (foldl scanLine \<lparr>legacy_rules = [], legacy_commands = []\<rparr>
         [''Run '' @ [tick] @ ''npm test'' @ [tick],
          ''Then '' @ [tick] @ ''npm run test:unit'' @ [tick]])) ''test''
     = Some ''npm run test:unit''"
proof -
  have category: "''test'' \<in> {''test'', ''build'', ''lint''}"
    by simp
  have first: "extractCommand (''Run '' @ [tick] @ ''npm test'' @ [tick]) = Some ''npm test''"
    by code_simp
  have second: "extractCommand (''Then '' @ [tick] @ ''npm run test:unit'' @ [tick])
                  = Some ''npm run test:unit''"
    by code_simp
  have contains: "str_includes ''npm test'' ''test''" "str_includes ''npm run test:unit'' ''test''"
    by code_simp+
  from legacy_command_last_match_wins [OF category,
      of "\<lparr>legacy_rules = [], legacy_commands = []\<rparr>"
         "[''Run '' @ [tick] @ ''npm test'' @ [tick],
           ''Then '' @ [tick] @ ''npm run test:unit'' @ [tick]]"]
  show ?thesis
    using first second contains by (simp add: List.map_filter_simps)
qed

section \<open>Properties of the shell form of the memory commands\<close>





















end
